theory Spec2Isabelle
  imports Complex_Main "HOL-Library.Multiset"
begin

section \<open>JavaScript values\<close>

text \<open>
  The backend of \<^verbatim>\<open>src/frontend/src/App.jsx\<close> (lines 207-323) is an Express
  application with two routes over a mongoose model. Request bodies and the scoring
  service's answers are parsed JSON, so the handlers compute on untyped JavaScript values.

  A JavaScript number is taken to be the real number it denotes, next to the three
  special values; the literals \<^verbatim>\<open>0.8\<close>, \<^verbatim>\<open>0.5\<close> and \<^verbatim>\<open>0.1\<close> of the source
  are the decimals they are written as. Strings are byte lists (UTF-8, as the source file
  stores its Arabic texts).
\<close>

datatype jsnum = Fin real | NaN | PosInf | NegInf

datatype jsval =
    JUndefined
  | JNull
  | JBool bool
  | JNum jsnum
  | JStr string
  | JArr "jsval list"
  | JObj "(string \<times> jsval) list"

text \<open>
  The conversions of the language that read or print number syntax are built into the
  engine, not written in the repository. They are parameters of the model: the text of
  a number (\<^verbatim>\<open>Number::toString\<close>), the number a string denotes (\<^verbatim>\<open>StringToNumber\<close>),
  and \<^verbatim>\<open>parseInt\<close> of a string. None of the three throws.
\<close>

record builtins =
  js_NumberToString :: "jsnum \<Rightarrow> string"
  js_StringToNumber :: "string \<Rightarrow> jsnum"
  js_parseInt :: "string \<Rightarrow> jsnum"

text \<open>\<^verbatim>\<open>ToBoolean\<close>: what \<^verbatim>\<open>!v\<close> negates.\<close>

fun truthy :: "jsval \<Rightarrow> bool" where
  "truthy JUndefined = False"
| "truthy JNull = False"
| "truthy (JBool b) = b"
| "truthy (JNum (Fin r)) = (r \<noteq> 0)"
| "truthy (JNum NaN) = False"
| "truthy (JNum PosInf) = True"
| "truthy (JNum NegInf) = True"
| "truthy (JStr s) = (s \<noteq> [])"
| "truthy (JArr xs) = True"
| "truthy (JObj kvs) = True"

text \<open>\<^verbatim>\<open>Array.prototype.join\<close> with its default separator.\<close>

fun join_comma :: "string list \<Rightarrow> string" where
  "join_comma [] = []"
| "join_comma [s] = s"
| "join_comma (s # ss) = s @ '','' @ join_comma ss"

text \<open>
  \<^verbatim>\<open>ToString\<close>, as \<^verbatim>\<open>parseInt(v)\<close> and a template literal \<^verbatim>\<open>${v}\<close> apply it;
  \<^verbatim>\<open>None\<close> is a thrown TypeError. An object or array is first made primitive. A parsed
  JSON object has no callable property of its own: without an own \<^verbatim>\<open>toString\<close>
  property the inherited method gives \<^verbatim>\<open>[object Object]\<close>; with one, that property
  is not callable, the inherited \<^verbatim>\<open>valueOf\<close> returns the object itself, and the
  conversion throws. An array is joined: \<^verbatim>\<open>null\<close> and \<^verbatim>\<open>undefined\<close> elements give the
  empty text, every other element is converted in turn.
\<close>

fun to_string :: "'a builtins_scheme \<Rightarrow> jsval \<Rightarrow> string option" where
  "to_string B JUndefined = Some ''undefined''"
| "to_string B JNull = Some ''null''"
| "to_string B (JBool b) = Some (if b then ''true'' else ''false'')"
| "to_string B (JNum n) = Some (js_NumberToString B n)"
| "to_string B (JStr s) = Some s"
| "to_string B (JArr xs) =
     map_option join_comma
       (those (map (\<lambda>v. if v = JUndefined \<or> v = JNull then Some [] else to_string B v) xs))"
| "to_string B (JObj kvs) =
     (if ''toString'' \<in> fst ` set kvs then None else Some ''[object Object]'')"

text \<open>
  \<^verbatim>\<open>ToNumber\<close>. An object or array is made primitive as above (with the hint
  \<^verbatim>\<open>number\<close> the two methods are tried in the other order, with the same result) and
  the text is read as a number.
\<close>

fun to_number :: "'a builtins_scheme \<Rightarrow> jsval \<Rightarrow> jsnum option" where
  "to_number B JUndefined = Some NaN"
| "to_number B JNull = Some (Fin 0)"
| "to_number B (JBool b) = Some (Fin (if b then 1 else 0))"
| "to_number B (JNum n) = Some n"
| "to_number B (JStr s) = Some (js_StringToNumber B s)"
| "to_number B v = map_option (js_StringToNumber B) (to_string B v)"

text \<open>A value that is not an object or array: none of its conversions throws.\<close>

fun primitive :: "jsval \<Rightarrow> bool" where
  "primitive (JArr xs) = False"
| "primitive (JObj kvs) = False"
| "primitive _ = True"

text \<open>\<^verbatim>\<open>parseInt(v)\<close>: the argument is converted to a string first.\<close>

definition parse_int :: "'a builtins_scheme \<Rightarrow> jsval \<Rightarrow> jsnum option" where
  "parse_int B v = map_option (js_parseInt B) (to_string B v)"

text \<open>The comparison \<^verbatim>\<open>a > b\<close> on numbers: false as soon as one side is NaN.\<close>

fun num_gt :: "jsnum \<Rightarrow> jsnum \<Rightarrow> bool" where
  "num_gt (Fin a) (Fin b) = (b < a)"
| "num_gt PosInf (Fin b) = True"
| "num_gt PosInf NegInf = True"
| "num_gt (Fin a) NegInf = True"
| "num_gt _ _ = False"

text \<open>
  \<^verbatim>\<open>v > c\<close> for a number literal \<^verbatim>\<open>c\<close>: the right operand is a number, so the
  left one is converted with \<^verbatim>\<open>ToNumber\<close> (which may throw) and the two are compared
  as numbers.
\<close>

definition js_gt :: "'a builtins_scheme \<Rightarrow> jsval \<Rightarrow> real \<Rightarrow> bool option" where
  "js_gt B v c = map_option (\<lambda>n. num_gt n (Fin c)) (to_number B v)"

section \<open>The offer engine (lines 287-297)\<close>

text \<open>
  The three offer labels and the fixed parts of the three message templates, byte for
  byte. In English: a 15% discount on interest; an extension of the repayment period;
  an account review is required.
\<close>

definition offer_premium :: string where
  \<comment> \<open>line 289\<close>
  "offer_premium =
     [CHR 0xD8, CHR 0xAE, CHR 0xD8, CHR 0xB5, CHR 0xD9, CHR 0x85, CHR 0x20, CHR 0x31,
      CHR 0x35, CHR 0x25, CHR 0x20, CHR 0xD8, CHR 0xB9, CHR 0xD9, CHR 0x84, CHR 0xD9,
      CHR 0x89, CHR 0x20, CHR 0xD8, CHR 0xA7, CHR 0xD9, CHR 0x84, CHR 0xD9, CHR 0x81,
      CHR 0xD9, CHR 0x88, CHR 0xD8, CHR 0xA7, CHR 0xD8, CHR 0xA6, CHR 0xD8, CHR 0xAF]"

definition message_premium_head :: string where
  \<comment> \<open>line 290, before the name\<close>
  "message_premium_head =
     [CHR 0xD8, CHR 0xAA, CHR 0xD9, CHR 0x87, CHR 0xD8, CHR 0xA7, CHR 0xD9, CHR 0x86,
      CHR 0xD9, CHR 0x8A, CHR 0xD9, CHR 0x86, CHR 0xD8, CHR 0xA7, CHR 0x20]"

definition message_premium_tail :: string where
  \<comment> \<open>line 290, after the name\<close>
  "message_premium_tail =
     [CHR 0x21, CHR 0x20, CHR 0xD8, CHR 0xA8, CHR 0xD9, CHR 0x86, CHR 0xD8, CHR 0xA7,
      CHR 0xD8, CHR 0xA1, CHR 0xD9, CHR 0x8B, CHR 0x20, CHR 0xD8, CHR 0xB9, CHR 0xD9,
      CHR 0x84, CHR 0xD9, CHR 0x89, CHR 0x20, CHR 0xD8, CHR 0xAA, CHR 0xD9, CHR 0x82,
      CHR 0xD9, CHR 0x8A, CHR 0xD9, CHR 0x8A, CHR 0xD9, CHR 0x85, CHR 0xD9, CHR 0x83,
      CHR 0x20, CHR 0xD8, CHR 0xA7, CHR 0xD9, CHR 0x84, CHR 0xD9, CHR 0x85, CHR 0xD9,
      CHR 0x85, CHR 0xD8, CHR 0xAA, CHR 0xD8, CHR 0xA7, CHR 0xD8, CHR 0xB2, CHR 0xD8,
      CHR 0x8C, CHR 0x20, CHR 0xD9, CHR 0x8A, CHR 0xD8, CHR 0xB3, CHR 0xD8, CHR 0xB9,
      CHR 0xD8, CHR 0xAF, CHR 0xD9, CHR 0x86, CHR 0xD8, CHR 0xA7, CHR 0x20, CHR 0xD8,
      CHR 0xA3, CHR 0xD9, CHR 0x86, CHR 0x20, CHR 0xD9, CHR 0x86, CHR 0xD9, CHR 0x82,
      CHR 0xD8, CHR 0xAF, CHR 0xD9, CHR 0x85, CHR 0x20, CHR 0xD9, CHR 0x84, CHR 0xD9,
      CHR 0x83, CHR 0x20, CHR 0xD8, CHR 0xAE, CHR 0xD8, CHR 0xB5, CHR 0xD9, CHR 0x85,
      CHR 0xD9, CHR 0x8B, CHR 0xD8, CHR 0xA7, CHR 0x20, CHR 0xD8, CHR 0xAE, CHR 0xD8,
      CHR 0xA7, CHR 0xD8, CHR 0xB5, CHR 0xD9, CHR 0x8B, CHR 0xD8, CHR 0xA7, CHR 0x2E]"

definition offer_extension :: string where
  \<comment> \<open>line 292\<close>
  "offer_extension =
     [CHR 0xD8, CHR 0xAA, CHR 0xD9, CHR 0x85, CHR 0xD8, CHR 0xAF, CHR 0xD9, CHR 0x8A,
      CHR 0xD8, CHR 0xAF, CHR 0x20, CHR 0xD9, CHR 0x81, CHR 0xD8, CHR 0xAA, CHR 0xD8,
      CHR 0xB1, CHR 0xD8, CHR 0xA9, CHR 0x20, CHR 0xD8, CHR 0xA7, CHR 0xD9, CHR 0x84,
      CHR 0xD8, CHR 0xB3, CHR 0xD8, CHR 0xAF, CHR 0xD8, CHR 0xA7, CHR 0xD8, CHR 0xAF]"

definition message_extension_head :: string where
  \<comment> \<open>line 293, before the name\<close>
  "message_extension_head =
     [CHR 0xD9, CHR 0x85, CHR 0xD8, CHR 0xB1, CHR 0xD8, CHR 0xAD, CHR 0xD8, CHR 0xA8,
      CHR 0xD8, CHR 0xA7, CHR 0xD9, CHR 0x8B, CHR 0x20]"

definition message_extension_tail :: string where
  \<comment> \<open>line 293, after the name\<close>
  "message_extension_tail =
     [CHR 0x2C, CHR 0x20, CHR 0xD8, CHR 0xA3, CHR 0xD9, CHR 0x86, CHR 0xD8, CHR 0xAA,
      CHR 0x20, CHR 0xD9, CHR 0x85, CHR 0xD8, CHR 0xA4, CHR 0xD9, CHR 0x87, CHR 0xD9,
      CHR 0x84, CHR 0x20, CHR 0xD9, CHR 0x84, CHR 0xD8, CHR 0xAA, CHR 0xD9, CHR 0x85,
      CHR 0xD8, CHR 0xAF, CHR 0xD9, CHR 0x8A, CHR 0xD8, CHR 0xAF, CHR 0x20, CHR 0xD9,
      CHR 0x81, CHR 0xD8, CHR 0xAA, CHR 0xD8, CHR 0xB1, CHR 0xD8, CHR 0xA9, CHR 0x20,
      CHR 0xD8, CHR 0xB3, CHR 0xD8, CHR 0xAF, CHR 0xD8, CHR 0xA7, CHR 0xD8, CHR 0xAF,
      CHR 0x20, CHR 0xD9, CHR 0x82, CHR 0xD8, CHR 0xB1, CHR 0xD8, CHR 0xB6, CHR 0xD9,
      CHR 0x83, CHR 0x20, CHR 0xD9, CHR 0x84, CHR 0xD8, CHR 0xAA, CHR 0xD8, CHR 0xAE,
      CHR 0xD9, CHR 0x81, CHR 0xD9, CHR 0x8A, CHR 0xD9, CHR 0x81, CHR 0x20, CHR 0xD8,
      CHR 0xA7, CHR 0xD9, CHR 0x84, CHR 0xD8, CHR 0xA3, CHR 0xD9, CHR 0x82, CHR 0xD8,
      CHR 0xB3, CHR 0xD8, CHR 0xA7, CHR 0xD8, CHR 0xB7, CHR 0x20, CHR 0xD8, CHR 0xA7,
      CHR 0xD9, CHR 0x84, CHR 0xD8, CHR 0xB4, CHR 0xD9, CHR 0x87, CHR 0xD8, CHR 0xB1,
      CHR 0xD9, CHR 0x8A, CHR 0xD8, CHR 0xA9, CHR 0x2E]"

definition offer_review :: string where
  \<comment> \<open>line 295\<close>
  "offer_review =
     [CHR 0xD9, CHR 0x85, CHR 0xD8, CHR 0xB1, CHR 0xD8, CHR 0xA7, CHR 0xD8, CHR 0xAC,
      CHR 0xD8, CHR 0xB9, CHR 0xD8, CHR 0xA9, CHR 0x20, CHR 0xD8, CHR 0xA7, CHR 0xD9,
      CHR 0x84, CHR 0xD8, CHR 0xAD, CHR 0xD8, CHR 0xB3, CHR 0xD8, CHR 0xA7, CHR 0xD8,
      CHR 0xA8, CHR 0x20, CHR 0xD9, CHR 0x85, CHR 0xD8, CHR 0xB7, CHR 0xD9, CHR 0x84,
      CHR 0xD9, CHR 0x88, CHR 0xD8, CHR 0xA8, CHR 0xD8, CHR 0xA9]"

definition message_review_head :: string where
  \<comment> \<open>line 296, before the name\<close>
  "message_review_head =
     [CHR 0xD8, CHR 0xA7, CHR 0xD9, CHR 0x84, CHR 0xD8, CHR 0xB3, CHR 0xD9, CHR 0x8A,
      CHR 0xD8, CHR 0xAF, CHR 0x2F, CHR 0xD8, CHR 0xA9, CHR 0x20]"

definition message_review_tail :: string where
  \<comment> \<open>line 296, after the name\<close>
  "message_review_tail =
     [CHR 0x2C, CHR 0x20, CHR 0xD9, CHR 0x86, CHR 0xD9, CHR 0x88, CHR 0xD8, CHR 0xAF,
      CHR 0x20, CHR 0xD8, CHR 0xAA, CHR 0xD8, CHR 0xAD, CHR 0xD8, CHR 0xAF, CHR 0xD9,
      CHR 0x8A, CHR 0xD8, CHR 0xAF, CHR 0x20, CHR 0xD9, CHR 0x85, CHR 0xD9, CHR 0x88,
      CHR 0xD8, CHR 0xB9, CHR 0xD8, CHR 0xAF, CHR 0x20, CHR 0xD9, CHR 0x84, CHR 0xD9,
      CHR 0x85, CHR 0xD8, CHR 0xB1, CHR 0xD8, CHR 0xA7, CHR 0xD8, CHR 0xAC, CHR 0xD8,
      CHR 0xB9, CHR 0xD8, CHR 0xA9, CHR 0x20, CHR 0xD8, CHR 0xAD, CHR 0xD8, CHR 0xB3,
      CHR 0xD8, CHR 0xA7, CHR 0xD8, CHR 0xA8, CHR 0xD9, CHR 0x83, CHR 0x20, CHR 0xD9,
      CHR 0x88, CHR 0xD8, CHR 0xA8, CHR 0xD8, CHR 0xAD, CHR 0xD8, CHR 0xAB, CHR 0x20,
      CHR 0xD8, CHR 0xA3, CHR 0xD9, CHR 0x81, CHR 0xD8, CHR 0xB6, CHR 0xD9, CHR 0x84,
      CHR 0x20, CHR 0xD8, CHR 0xA7, CHR 0xD9, CHR 0x84, CHR 0xD8, CHR 0xAD, CHR 0xD9,
      CHR 0x84, CHR 0xD9, CHR 0x88, CHR 0xD9, CHR 0x84, CHR 0x20, CHR 0xD8, CHR 0xA7,
      CHR 0xD9, CHR 0x84, CHR 0xD9, CHR 0x85, CHR 0xD8, CHR 0xA7, CHR 0xD9, CHR 0x84,
      CHR 0xD9, CHR 0x8A, CHR 0xD8, CHR 0xA9, CHR 0x20, CHR 0xD9, CHR 0x84, CHR 0xD9,
      CHR 0x83, CHR 0x2E]"

text \<open>A template literal around \<^verbatim>\<open>${v}\<close>; it throws when the conversion of \<^verbatim>\<open>v\<close> does.\<close>

definition template :: "'a builtins_scheme \<Rightarrow> string \<Rightarrow> jsval \<Rightarrow> string \<Rightarrow> string option" where
  "template B head v tail = map_option (\<lambda>t. head @ t @ tail) (to_string B v)"

text \<open>
  The \<^verbatim>\<open>if\<close> chain of lines 288-297, which the specification calls
  \<^verbatim>\<open>deriveOffer(score, name)\<close>: the first test that holds decides. \<^verbatim>\<open>None\<close>: a
  comparison or a template has thrown, and no offer is derived.
\<close>

definition deriveOffer :: "'a builtins_scheme \<Rightarrow> jsval \<Rightarrow> jsval \<Rightarrow> (string \<times> string) option" where
  "deriveOffer B score' name' =
     (case js_gt B score' 0.8 of
        None \<Rightarrow> None
      | Some True \<Rightarrow>
          map_option (Pair offer_premium)
            (template B message_premium_head name' message_premium_tail)
      | Some False \<Rightarrow>
          (case js_gt B score' 0.5 of
             None \<Rightarrow> None
           | Some True \<Rightarrow>
               map_option (Pair offer_extension)
                 (template B message_extension_head name' message_extension_tail)
           | Some False \<Rightarrow>
               map_option (Pair offer_review)
                 (template B message_review_head name' message_review_tail)))"

text \<open>The specification's names for the three outcomes, read off the offer label.\<close>

datatype tier = Premium | Extension | Review

definition tier_of_offer :: "string \<Rightarrow> tier option" where
  "tier_of_offer l =
     (if l = offer_premium then Some Premium
      else if l = offer_extension then Some Extension
      else if l = offer_review then Some Review
      else None)"

text \<open>Position of a tier below the best one.\<close>

fun tier_rank :: "tier \<Rightarrow> nat" where
  "tier_rank Premium = 0"
| "tier_rank Extension = 1"
| "tier_rank Review = 2"

text \<open>\<^verbatim>\<open>contains s t\<close>: the text \<^verbatim>\<open>t\<close> occurs in \<^verbatim>\<open>s\<close>.\<close>

definition contains :: "string \<Rightarrow> string \<Rightarrow> bool" where
  "contains s t = list_ex (\<lambda>i. take (length t) (drop i s) = t) [0..<Suc (length s)]"

section \<open>The data model\<close>

text \<open>
  The body of a POST request, as line 266 destructures it: four properties, each a JSON
  value or \<^verbatim>\<open>undefined\<close> when the property is absent.
\<close>

record client_input =
  name :: jsval
  age :: jsval
  income :: jsval
  loans :: jsval

text \<open>What the handler hands to \<^verbatim>\<open>new Client({...})\<close> on lines 300-308.\<close>

record client_fields = client_input +
  score :: jsval
  offer :: string
  message :: string

text \<open>
  A stored document: the fields of the schema (lines 232-240), the identity and the two
  timestamps of \<^verbatim>\<open>{ timestamps: true }\<close>.
\<close>

record client_doc = client_fields +
  oid :: nat
  createdAt :: nat
  updatedAt :: nat

type_synonym collection = "client_doc list"

text \<open>The two schema types of lines 233-239.\<close>

datatype schema_type = SchemaString | SchemaNumber

text \<open>
  What \<^verbatim>\<open>axios.post\<close> settles to: a rejection (a transport error, a timeout, a status
  outside 2xx), or a response with its parsed data. The call is taken to settle: line
  278 sets no timeout, and a call that never settles is outside the model.
\<close>

datatype ai_outcome = Rejected string | Resolved jsval

text \<open>
  Everything outside the two handlers: the engine's conversions, the scoring service
  (its answer to a feature vector), mongoose's casting of a value that is not of the
  schema type (\<^verbatim>\<open>None\<close>: a CastError), whether the database answers, the clock and the
  identity the next document gets.
\<close>

record env = builtins +
  axios_post :: "jsnum list \<Rightarrow> ai_outcome"
  mongoose_cast :: "schema_type \<Rightarrow> jsval \<Rightarrow> jsval option"
  db_up :: bool
  now :: nat
  new_oid :: nat

text \<open>What a handler does that an observer outside can see, in order.\<close>

datatype event =
    AxiosPost "jsnum list"
  | ConsoleError string
  | ClientSave client_fields
  | ClientFind

datatype json_body =
    Message string
  | ClientJson client_doc
  | ClientsJson "client_doc list"

datatype response = Response nat json_body

record run =
  reply :: response
  db_after :: collection
  events :: "event list"

section \<open>The client store\<close>

text \<open>
  Modelled from the spec: the Client Store is the mongoose model of line 242 over
  MongoDB, an external collaborator (sections 2 and 6 of the specification:
  \<^verbatim>\<open>create(record) -> persistedRecord\<close>, which assigns identity and timestamp, and
  \<^verbatim>\<open>listAll()\<close>, ordered by creation time descending). The schema it enforces is the
  repository's own (lines 232-240): every path is required and has a type.
\<close>

fun of_schema_type :: "schema_type \<Rightarrow> jsval \<Rightarrow> bool" where
  "of_schema_type SchemaString (JStr s) = True"
| "of_schema_type SchemaNumber (JNum n) = (n \<noteq> NaN)"
| "of_schema_type _ _ = False"

text \<open>\<^verbatim>\<open>required: true\<close>: not null, not undefined, and a string is not empty.\<close>

fun required_ok :: "jsval \<Rightarrow> bool" where
  "required_ok JUndefined = False"
| "required_ok JNull = False"
| "required_ok (JStr s) = (s \<noteq> [])"
| "required_ok _ = True"

text \<open>
  One path of the schema: a value of the declared type is kept as it is, any other value
  is cast by mongoose; the result must be of the type and pass \<^verbatim>\<open>required\<close>.
\<close>

definition schema_path :: "'a env_scheme \<Rightarrow> schema_type \<Rightarrow> jsval \<Rightarrow> jsval option" where
  "schema_path E T v =
     (if v = JUndefined \<or> v = JNull then None
      else
        (case (if of_schema_type T v then Some v else mongoose_cast E T v) of
           None \<Rightarrow> None
         | Some w \<Rightarrow> if of_schema_type T w \<and> required_ok w then Some w else None))"

text \<open>The document's validation: every path in turn.\<close>

definition validate :: "'a env_scheme \<Rightarrow> client_fields \<Rightarrow> client_fields option" where
  "validate E f =
     (case schema_path E SchemaString (name f) of None \<Rightarrow> None | Some n \<Rightarrow>
      (case schema_path E SchemaNumber (age f) of None \<Rightarrow> None | Some a \<Rightarrow>
      (case schema_path E SchemaNumber (income f) of None \<Rightarrow> None | Some i \<Rightarrow>
      (case schema_path E SchemaNumber (loans f) of None \<Rightarrow> None | Some l \<Rightarrow>
      (case schema_path E SchemaNumber (score f) of None \<Rightarrow> None | Some s \<Rightarrow>
         if offer f = [] \<or> message f = [] then None
         else Some \<lparr>name = n, age = a, income = i, loans = l,
                    score = s, offer = offer f, message = message f\<rparr>)))))"

datatype store_error = ValidationFailed | Unavailable

text \<open>
  \<^verbatim>\<open>newClient.save()\<close> (line 310): validation first, then the insertion, which gives
  the document its identity and timestamps. A rejection leaves the collection as it was.
\<close>

definition save :: "'a env_scheme \<Rightarrow> collection \<Rightarrow> client_fields \<Rightarrow> store_error + client_doc \<times> collection" where
  "save E docs f =
     (case validate E f of
        None \<Rightarrow> Inl ValidationFailed
      | Some g \<Rightarrow>
          if db_up E then
            (let d = \<lparr>name = name g, age = age g, income = income g, loans = loans g,
                       score = score g, offer = offer g, message = message g,
                       oid = new_oid E, createdAt = now E, updatedAt = now E\<rparr>
             in Inr (d, docs @ [d]))
          else Inl Unavailable)"

text \<open>
  \<^verbatim>\<open>Client.find().sort({ createdAt: -1 })\<close> (line 252): all documents, the latest
  creation time first. MongoDB leaves the order of documents with equal keys open; here
  the later insertion comes first.
\<close>

definition find_sorted :: "collection \<Rightarrow> client_doc list" where
  "find_sorted docs = rev (sort_key createdAt docs)"

section \<open>The two routes\<close>

text \<open>\<^verbatim>\<open>GET /api/clients\<close>, lines 250-258.\<close>

definition get_clients :: "'a env_scheme \<Rightarrow> collection \<Rightarrow> run" where
  "get_clients E docs =
     (if db_up E then
        \<lparr>reply = Response 200 (ClientsJson (find_sorted docs)), db_after = docs,
         events = [ClientFind]\<rparr>
      else
        \<lparr>reply = Response 500 (Message ''Server error while fetching clients.''),
         db_after = docs,
         events = [ClientFind, ConsoleError ''Error fetching clients:'']\<rparr>)"

text \<open>The presence check of line 269.\<close>

definition missing_fields :: "client_input \<Rightarrow> bool" where
  "missing_fields body =
     (\<not> truthy (name body) \<or> \<not> truthy (age body) \<or> \<not> truthy (income body)
      \<or> loans body = JUndefined)"

text \<open>The feature vector of line 274; \<^verbatim>\<open>None\<close> when one of the three conversions throws.\<close>

definition features :: "'a env_scheme \<Rightarrow> client_input \<Rightarrow> jsnum list option" where
  "features E body =
     (case parse_int E (age body) of None \<Rightarrow> None | Some a \<Rightarrow>
      (case parse_int E (income body) of None \<Rightarrow> None | Some i \<Rightarrow>
      (case parse_int E (loans body) of None \<Rightarrow> None | Some l \<Rightarrow> Some [a, i, l])))"

text \<open>
  \<^verbatim>\<open>data.repayment_score\<close> (line 279). Reading a property of \<^verbatim>\<open>null\<close> or
  \<^verbatim>\<open>undefined\<close> throws a TypeError (\<^verbatim>\<open>None\<close>); an object gives the property or
  \<^verbatim>\<open>undefined\<close>; a string, number, boolean or array has no such property.
\<close>

fun repayment_score :: "jsval \<Rightarrow> jsval option" where
  "repayment_score JUndefined = None"
| "repayment_score JNull = None"
| "repayment_score (JObj kvs) =
     Some (case map_of kvs ''repayment_score'' of None \<Rightarrow> JUndefined | Some v \<Rightarrow> v)"
| "repayment_score _ = Some JUndefined"

text \<open>
  Lines 277-284: one call; whatever is thrown inside the \<^verbatim>\<open>try\<close> (the rejection of
  the call, or the TypeError of line 279) is logged and replaced by the score 0.1.
\<close>

definition score_client :: "'a env_scheme \<Rightarrow> jsnum list \<Rightarrow> jsval \<times> event list" where
  "score_client E fs =
     (case axios_post E fs of
        Rejected msg \<Rightarrow>
          (JNum (Fin 0.1), [AxiosPost fs, ConsoleError ''Error calling AI model API:''])
      | Resolved data \<Rightarrow>
          (case repayment_score data of
             None \<Rightarrow>
               (JNum (Fin 0.1), [AxiosPost fs, ConsoleError ''Error calling AI model API:''])
           | Some v \<Rightarrow> (v, [AxiosPost fs])))"

text \<open>
  The outer \<^verbatim>\<open>catch\<close> of lines 313-316: whatever is thrown outside the inner
  \<^verbatim>\<open>try\<close> is logged and answered with status 500, after the events so far.
\<close>

definition server_error :: "collection \<Rightarrow> event list \<Rightarrow> run" where
  "server_error docs sofar =
     \<lparr>reply = Response 500 (Message ''Server error while creating the client.''),
      db_after = docs, events = sofar @ [ConsoleError ''Error creating client:'']\<rparr>"

text \<open>
  \<^verbatim>\<open>POST /api/clients\<close>, lines 264-317. Three places can throw into the outer
  \<^verbatim>\<open>catch\<close>: the conversions of line 274, the comparisons and templates of lines
  288-296, and the rejection of \<^verbatim>\<open>save\<close> on line 310.
\<close>

definition post_clients :: "'a env_scheme \<Rightarrow> collection \<Rightarrow> client_input \<Rightarrow> run" where
  "post_clients E docs body =
     (if missing_fields body then
        \<lparr>reply = Response 400
           (Message ''Please provide all required fields: name, age, income, and loans.''),
         db_after = docs, events = []\<rparr>
      else
        (case features E body of
           None \<Rightarrow> server_error docs []
         | Some fs \<Rightarrow>
             (let (score', log') = score_client E fs in
              case deriveOffer E score' (name body) of
                None \<Rightarrow> server_error docs log'
              | Some (offer', message') \<Rightarrow>
                  (let newClient = \<lparr>name = name body, age = age body, income = income body,
                                    loans = loans body, score = score', offer = offer',
                                    message = message'\<rparr>
                   in case save E docs newClient of
                        Inr (savedClient, docs') \<Rightarrow>
                          \<lparr>reply = Response 201 (ClientJson savedClient), db_after = docs',
                           events = log' @ [ClientSave newClient]\<rparr>
                      | Inl err \<Rightarrow> server_error docs (log' @ [ClientSave newClient])))))"

section \<open>The specification's input type\<close>

text \<open>
  Section 3 of the specification: a ClientInput has a non-empty text as name, a positive
  integer as age, and non-negative integers as income and loans.
\<close>

definition is_integer :: "real \<Rightarrow> bool" where
  "is_integer r = (of_int \<lfloor>r\<rfloor> = r)"

definition valid_ClientInput :: "client_input \<Rightarrow> bool" where
  "valid_ClientInput body =
     ((case name body of JStr s \<Rightarrow> s \<noteq> [] | _ \<Rightarrow> False)
      \<and> (case age body of JNum (Fin r) \<Rightarrow> is_integer r \<and> 0 < r | _ \<Rightarrow> False)
      \<and> (case income body of JNum (Fin r) \<Rightarrow> is_integer r \<and> 0 \<le> r | _ \<Rightarrow> False)
      \<and> (case loans body of JNum (Fin r) \<Rightarrow> is_integer r \<and> 0 \<le> r | _ \<Rightarrow> False))"

text \<open>A score inside the unit interval, as the specification's ScoreResult is.\<close>

fun score_in_unit :: "jsval \<Rightarrow> bool" where
  "score_in_unit (JNum (Fin r)) = (0 \<le> r \<and> r \<le> 1)"
| "score_in_unit _ = False"

section \<open>Concrete runs\<close>

text \<open>
  The engine's conversions and mongoose's casting, tabulated on the values the runs
  below consult: the numbers 30, 50, 1, 0 and 30.7 print as they are written;
  \<^verbatim>\<open>parseInt\<close> of the texts of 30, 50, 1 and 0 is the number, \<^verbatim>\<open>parseInt("30.7")\<close>
  is 30 and \<^verbatim>\<open>parseInt("abc")\<close> is NaN. mongoose casts the string \<^verbatim>\<open>"30"\<close> to the
  number 30 and cannot cast \<^verbatim>\<open>"abc"\<close> to a number; the runs hand it no other value.
  No run reads a string as a number for a comparison.
\<close>

definition NumberToString_table :: "(jsnum \<times> string) list" where
  "NumberToString_table =
     [(Fin 30, ''30''), (Fin 50, ''50''), (Fin 1, ''1''), (Fin 0, ''0''),
      (Fin 30.7, ''30.7'')]"

definition engine_NumberToString :: "jsnum \<Rightarrow> string" where
  "engine_NumberToString n =
     (case map_of NumberToString_table n of Some s \<Rightarrow> s | None \<Rightarrow> ''NaN'')"

definition parseInt_table :: "(string \<times> jsnum) list" where
  "parseInt_table =
     [(''30'', Fin 30), (''50'', Fin 50), (''1'', Fin 1), (''0'', Fin 0),
      (''30.7'', Fin 30), (''abc'', NaN)]"

definition engine_parseInt :: "string \<Rightarrow> jsnum" where
  "engine_parseInt s = (case map_of parseInt_table s of Some n \<Rightarrow> n | None \<Rightarrow> NaN)"

definition engine_StringToNumber :: "string \<Rightarrow> jsnum" where
  "engine_StringToNumber s = (if s = ''30'' then Fin 30 else NaN)"

definition cast_table :: "schema_type \<Rightarrow> jsval \<Rightarrow> jsval option" where
  "cast_table T v =
     (if T = SchemaNumber \<and> v = JStr ''30'' then Some (JNum (Fin 30)) else None)"

text \<open>
  An environment in which the scoring call settles to \<^verbatim>\<open>a\<close>, the database answers
  when \<^verbatim>\<open>up\<close>, and the clock shows \<^verbatim>\<open>t\<close>.
\<close>

definition world :: "ai_outcome \<Rightarrow> bool \<Rightarrow> nat \<Rightarrow> env" where
  "world a up t =
     \<lparr>js_NumberToString = engine_NumberToString,
      js_StringToNumber = engine_StringToNumber, js_parseInt = engine_parseInt,
      axios_post = (\<lambda>fs. a), mongoose_cast = cast_table, db_up = up, now = t,
      new_oid = t\<rparr>"

text \<open>A scoring service that answers with the score \<^verbatim>\<open>x\<close>.\<close>

definition answers :: "real \<Rightarrow> ai_outcome" where
  "answers x = Resolved (JObj [(''repayment_score'', JNum (Fin x))])"

text \<open>The input of the specification's example (section 8).\<close>

definition sara :: client_input where
  "sara = \<lparr>name = JStr ''Sara'', age = JNum (Fin 30), income = JNum (Fin 50),
           loans = JNum (Fin 1)\<rparr>"

section \<open>Properties of the offer engine\<close>

lemma offer_labels_distinct:
  "offer_premium \<noteq> offer_extension" "offer_premium \<noteq> offer_review"
  "offer_extension \<noteq> offer_review"
  by (simp_all add: offer_premium_def offer_extension_def offer_review_def)

lemma tier_of_offer_simps:
  "tier_of_offer offer_premium = Some Premium"
  "tier_of_offer offer_extension = Some Extension"
  "tier_of_offer offer_review = Some Review"
  using offer_labels_distinct by (simp_all add: tier_of_offer_def)

lemma contains_middle: "contains (a @ t @ b) t"
proof -
  have "length a \<in> set [0..<Suc (length (a @ t @ b))]" by simp
  moreover have "take (length t) (drop (length a) (a @ t @ b)) = t" by simp
  ultimately show ?thesis unfolding contains_def list_ex_iff by blast
qed

lemma deriveOffer_Fin:
  "to_string B n = Some t \<Longrightarrow>
   deriveOffer B (JNum (Fin s)) n =
     Some (if 0.8 < s then
             (offer_premium, message_premium_head @ t @ message_premium_tail)
           else if 0.5 < s then
             (offer_extension, message_extension_head @ t @ message_extension_tail)
           else
             (offer_review, message_review_head @ t @ message_review_tail))"
  by (simp add: deriveOffer_def js_gt_def template_def)

lemma deriveOffer_throws_name:
  "to_string B n = None \<Longrightarrow> deriveOffer B v n = None"
  by (simp add: deriveOffer_def template_def split: option.splits bool.splits)

lemma deriveOffer_Some:
  assumes "deriveOffer B v n = Some (off, m)"
  shows "\<exists>t. to_string B n = Some t
           \<and> ((off = offer_premium \<and> m = message_premium_head @ t @ message_premium_tail)
              \<or> (off = offer_extension \<and> m = message_extension_head @ t @ message_extension_tail)
              \<or> (off = offer_review \<and> m = message_review_head @ t @ message_review_tail))"
  using assms
  by (auto simp: deriveOffer_def template_def split: option.splits bool.splits)

lemma deriveOffer_total:
  assumes "to_number B v = Some x" and "to_string B n = Some t"
  shows "\<exists>off m. deriveOffer B v n = Some (off, m)
           \<and> (off = offer_premium \<or> off = offer_extension \<or> off = offer_review)"
  using assms
  by (auto simp: deriveOffer_def js_gt_def template_def split: option.splits bool.splits)

text \<open>
  Claim C1. For every numeric score \<open>s\<close> and every name whose text \<open>t\<close> can be taken
  (for a string, the string itself): above 0.8 the offer is the premium one (the interest
  discount), above 0.5 and up to 0.8 the extension, and up to 0.5 the review. The bounds
  are strict: exactly 0.8 gives the extension and exactly 0.5 the review. The message of
  every tier contains the name's text. A name whose conversion throws gives no offer.
\<close>

theorem C1_deriveOffer_tiers:
  "(to_string B n = Some t \<longrightarrow>
      (0.8 < s \<longrightarrow>
         (\<exists>m. deriveOffer B (JNum (Fin s)) n = Some (offer_premium, m) \<and> contains m t))
      \<and> (0.5 < s \<and> s \<le> 0.8 \<longrightarrow>
         (\<exists>m. deriveOffer B (JNum (Fin s)) n = Some (offer_extension, m) \<and> contains m t))
      \<and> (s \<le> 0.5 \<longrightarrow>
         (\<exists>m. deriveOffer B (JNum (Fin s)) n = Some (offer_review, m) \<and> contains m t))
      \<and> (\<exists>m. deriveOffer B (JNum (Fin 0.8)) n = Some (offer_extension, m))
      \<and> (\<exists>m. deriveOffer B (JNum (Fin 0.5)) n = Some (offer_review, m)))
   \<and> to_string B (JStr t) = Some t
   \<and> (to_string B n = None \<longrightarrow> deriveOffer B (JNum (Fin s)) n = None)
   \<and> tier_of_offer offer_premium = Some Premium
   \<and> tier_of_offer offer_extension = Some Extension
   \<and> tier_of_offer offer_review = Some Review"
  by (simp add: deriveOffer_Fin deriveOffer_throws_name tier_of_offer_simps contains_middle)

theorem C1_deriveOffer_tiers_witness:
  "to_string (world (answers 0.9) True 1000) (JStr ''Sara'') = Some ''Sara''
   \<and> (0.8 :: real) < 0.9
   \<and> (\<exists>m. deriveOffer (world (answers 0.9) True 1000) (JNum (Fin 0.9)) (JStr ''Sara'') =
             Some (offer_premium, m) \<and> contains m ''Sara'')
   \<and> (0.5 :: real) < 0.7 \<and> (0.7 :: real) \<le> 0.8
   \<and> (\<exists>m. deriveOffer (world (answers 0.9) True 1000) (JNum (Fin 0.7)) (JStr ''Sara'') =
             Some (offer_extension, m) \<and> contains m ''Sara'')
   \<and> (0.3 :: real) \<le> 0.5
   \<and> (\<exists>m. deriveOffer (world (answers 0.9) True 1000) (JNum (Fin 0.3)) (JStr ''Sara'') =
             Some (offer_review, m) \<and> contains m ''Sara'')
   \<and> to_string (world (answers 0.9) True 1000) (JObj [(''toString'', JNum (Fin 1))]) = None
   \<and> deriveOffer (world (answers 0.9) True 1000) (JNum (Fin 0.9))
        (JObj [(''toString'', JNum (Fin 1))]) = None"
proof -
  have t: "to_string (world (answers 0.9) True 1000) (JStr ''Sara'') = Some ''Sara''" by simp
  have n: "to_string (world (answers 0.9) True 1000) (JObj [(''toString'', JNum (Fin 1))]) = None"
    by simp
  from C1_deriveOffer_tiers [where s = "0.9" and B = "world (answers 0.9) True 1000"
      and n = "JStr ''Sara''" and t = "''Sara''"]
    C1_deriveOffer_tiers [where s = "0.7" and B = "world (answers 0.9) True 1000"
      and n = "JStr ''Sara''" and t = "''Sara''"]
    C1_deriveOffer_tiers [where s = "0.3" and B = "world (answers 0.9) True 1000"
      and n = "JStr ''Sara''" and t = "''Sara''"]
    C1_deriveOffer_tiers [where s = "0.9" and B = "world (answers 0.9) True 1000"
      and n = "JObj [(''toString'', JNum (Fin 1))]" and t = "''Sara''"]
  show ?thesis using t n by simp
qed

text \<open>
  Claim C7. The tiering is total: every score, and every other value the service may
  answer with, gets one of the three tiers as soon as its comparison and the name's
  template do not throw (the three labels differ, so exactly one). On the numeric scores
  it is monotonic: of two scores, the higher one never gets a tier further from premium
  than the lower one.
\<close>

theorem C7_tiering_total_monotonic:
  "(to_number B v \<noteq> None \<and> to_string B n \<noteq> None \<longrightarrow>
      (\<exists>off m t. deriveOffer B v n = Some (off, m) \<and> tier_of_offer off = Some t))
   \<and> offer_premium \<noteq> offer_extension \<and> offer_premium \<noteq> offer_review
   \<and> offer_extension \<noteq> offer_review
   \<and> (to_string B n \<noteq> None \<and> s1 \<le> s2 \<longrightarrow>
        (\<exists>o1 m1 t1 o2 m2 t2.
            deriveOffer B (JNum (Fin s1)) n = Some (o1, m1) \<and> tier_of_offer o1 = Some t1
          \<and> deriveOffer B (JNum (Fin s2)) n = Some (o2, m2) \<and> tier_of_offer o2 = Some t2
          \<and> tier_rank t2 \<le> tier_rank t1))"
proof (intro conjI impI)
  assume "to_number B v \<noteq> None \<and> to_string B n \<noteq> None"
  then obtain x t where "to_number B v = Some x" "to_string B n = Some t" by auto
  from deriveOffer_total [OF this]
  show "\<exists>off m t. deriveOffer B v n = Some (off, m) \<and> tier_of_offer off = Some t"
    using tier_of_offer_simps by auto
next
  assume "to_string B n \<noteq> None \<and> s1 \<le> s2"
  then obtain t where t: "to_string B n = Some t" and le: "s1 \<le> s2" by auto
  show "\<exists>o1 m1 t1 o2 m2 t2.
            deriveOffer B (JNum (Fin s1)) n = Some (o1, m1) \<and> tier_of_offer o1 = Some t1
          \<and> deriveOffer B (JNum (Fin s2)) n = Some (o2, m2) \<and> tier_of_offer o2 = Some t2
          \<and> tier_rank t2 \<le> tier_rank t1"
    using le by (simp add: deriveOffer_Fin [OF t] tier_of_offer_simps)
qed (rule offer_labels_distinct)+

theorem C7_tiering_total_monotonic_witness:
  "to_number (world (answers 0.6) True 1000) (JNum (Fin 0.6)) \<noteq> None
   \<and> to_string (world (answers 0.6) True 1000) (JStr ''Sara'') \<noteq> None
   \<and> (0.6 :: real) \<le> 0.9
   \<and> (\<exists>o1 m1 t1 o2 m2 t2.
        deriveOffer (world (answers 0.6) True 1000) (JNum (Fin 0.6)) (JStr ''Sara'') =
          Some (o1, m1) \<and> tier_of_offer o1 = Some t1
      \<and> deriveOffer (world (answers 0.6) True 1000) (JNum (Fin 0.9)) (JStr ''Sara'') =
          Some (o2, m2) \<and> tier_of_offer o2 = Some t2
      \<and> tier_rank t2 \<le> tier_rank t1)
   \<and> (\<exists>off m t. deriveOffer (world (answers 0.6) True 1000) (JNum (Fin 0.6)) (JStr ''Sara'') =
          Some (off, m) \<and> tier_of_offer off = Some t)"
proof -
  have x: "to_number (world (answers 0.6) True 1000) (JNum (Fin 0.6)) \<noteq> None" by simp
  have t: "to_string (world (answers 0.6) True 1000) (JStr ''Sara'') \<noteq> None" by simp
  have le: "(0.6 :: real) \<le> 0.9" by simp
  from C7_tiering_total_monotonic
    [where B = "world (answers 0.6) True 1000" and v = "JNum (Fin 0.6)"
      and n = "JStr ''Sara''" and ?s1.0 = "0.6" and ?s2.0 = "0.9"] x t le
  show ?thesis by blast
qed

section \<open>Properties of the two routes\<close>

lemma post_clients_missing:
  "missing_fields body \<Longrightarrow>
   post_clients E docs body =
     \<lparr>reply = Response 400
        (Message ''Please provide all required fields: name, age, income, and loans.''),
      db_after = docs, events = []\<rparr>"
  by (simp add: post_clients_def)

lemma post_clients_throws_features:
  "\<not> missing_fields body \<Longrightarrow> features E body = None \<Longrightarrow>
   post_clients E docs body = server_error docs []"
  by (simp add: post_clients_def)

lemma post_clients_throws_offer:
  "\<not> missing_fields body \<Longrightarrow> features E body = Some fs \<Longrightarrow>
   score_client E fs = (s, l) \<Longrightarrow> deriveOffer E s (name body) = None \<Longrightarrow>
   post_clients E docs body = server_error docs l"
  by (simp add: post_clients_def)

lemma post_clients_present:
  assumes "\<not> missing_fields body"
    and "features E body = Some fs"
    and "score_client E fs = (s, l)"
    and "deriveOffer E s (name body) = Some (off, msg)"
    and "f = \<lparr>name = name body, age = age body, income = income body, loans = loans body,
              score = s, offer = off, message = msg\<rparr>"
  shows "post_clients E docs body =
     (case save E docs f of
        Inr (d, docs') \<Rightarrow>
          \<lparr>reply = Response 201 (ClientJson d), db_after = docs',
           events = l @ [ClientSave f]\<rparr>
      | Inl err \<Rightarrow> server_error docs (l @ [ClientSave f]))"
  using assms(1-4) unfolding assms(5) by (simp add: post_clients_def Let_def)

lemma server_error_simps:
  "reply (server_error docs l) =
     Response 500 (Message ''Server error while creating the client.'')"
  "db_after (server_error docs l) = docs"
  "events (server_error docs l) = l @ [ConsoleError ''Error creating client:'']"
  by (simp_all add: server_error_def)

lemma score_client_cases:
  "score_client E fs =
     (JNum (Fin 0.1), [AxiosPost fs, ConsoleError ''Error calling AI model API:''])
   \<or> (\<exists>data v. axios_post E fs = Resolved data \<and> repayment_score data = Some v
         \<and> score_client E fs = (v, [AxiosPost fs]))"
  by (auto simp: score_client_def split: ai_outcome.splits option.splits)

lemma score_client_rejected:
  "axios_post E fs = Rejected msg \<Longrightarrow>
   score_client E fs =
     (JNum (Fin 0.1), [AxiosPost fs, ConsoleError ''Error calling AI model API:''])"
  by (simp add: score_client_def)

lemma score_client_thrown:
  "axios_post E fs = Resolved data \<Longrightarrow> repayment_score data = None \<Longrightarrow>
   score_client E fs =
     (JNum (Fin 0.1), [AxiosPost fs, ConsoleError ''Error calling AI model API:''])"
  by (simp add: score_client_def)

lemma score_client_resolved:
  "axios_post E fs = Resolved data \<Longrightarrow> repayment_score data = Some v \<Longrightarrow>
   score_client E fs = (v, [AxiosPost fs])"
  by (simp add: score_client_def)

lemma score_client_events:
  "\<exists>rest. snd (score_client E fs) = AxiosPost fs # rest \<and> (\<forall>gs. AxiosPost gs \<notin> set rest)"
  using score_client_cases [of E fs] by auto

lemma save_Inr:
  "save E docs f = Inr (d, docs') \<Longrightarrow>
   db_up E \<and> docs' = docs @ [d]
   \<and> (\<exists>g. validate E f = Some g \<and> name d = name g \<and> age d = age g \<and> income d = income g
        \<and> loans d = loans g \<and> score d = score g \<and> offer d = offer g \<and> message d = message g)
   \<and> oid d = new_oid E \<and> createdAt d = now E \<and> updatedAt d = now E"
  by (auto simp: save_def Let_def split: option.splits if_splits)

lemma save_down: "\<not> db_up E \<Longrightarrow> \<exists>e. save E docs f = Inl e"
  by (simp add: save_def split: option.splits)

lemma validate_Some:
  "validate E f = Some g \<Longrightarrow>
   schema_path E SchemaString (name f) = Some (name g)
   \<and> schema_path E SchemaNumber (age f) = Some (age g)
   \<and> schema_path E SchemaNumber (income f) = Some (income g)
   \<and> schema_path E SchemaNumber (loans f) = Some (loans g)
   \<and> schema_path E SchemaNumber (score f) = Some (score g)
   \<and> offer g = offer f \<and> message g = message f"
  by (auto simp: validate_def split: option.splits if_splits)

lemma schema_path_typed:
  "of_schema_type T v \<Longrightarrow> required_ok v \<Longrightarrow> schema_path E T v = Some v"
  by (cases v) (auto simp: schema_path_def)

lemma schema_path_number: "of_schema_type SchemaNumber v \<Longrightarrow> schema_path E SchemaNumber v = Some v"
  by (cases v) (auto simp: schema_path_def)

lemma schema_path_Some_typed:
  "schema_path E T v = Some w \<Longrightarrow> of_schema_type T v \<Longrightarrow> w = v"
  by (auto simp: schema_path_def split: option.splits if_splits)

lemma derived_nonempty:
  assumes "deriveOffer E s n = Some (off, m)"
  shows "off \<noteq> []" and "m \<noteq> []"
  using deriveOffer_Some [OF assms]
  by (auto simp: offer_premium_def offer_extension_def offer_review_def
      message_premium_head_def message_extension_head_def message_review_head_def)

lemma valid_present:
  "valid_ClientInput body \<Longrightarrow> income body \<noteq> JNum (Fin 0) \<Longrightarrow> \<not> missing_fields body"
  by (auto simp: valid_ClientInput_def missing_fields_def
      split: jsval.splits jsnum.splits)

lemma valid_schema:
  assumes "valid_ClientInput body"
  shows "schema_path E SchemaString (name body) = Some (name body)"
    and "schema_path E SchemaNumber (age body) = Some (age body)"
    and "schema_path E SchemaNumber (income body) = Some (income body)"
    and "schema_path E SchemaNumber (loans body) = Some (loans body)"
  using assms
  by (auto simp: valid_ClientInput_def intro!: schema_path_typed
      split: jsval.splits jsnum.splits)

lemma valid_conversions:
  assumes "valid_ClientInput body"
  shows "\<exists>fs. features E body = Some fs" and "\<exists>t. to_string E (name body) = Some t"
  using assms
  by (auto simp: valid_ClientInput_def features_def parse_int_def
      split: jsval.splits jsnum.splits)

lemma find_sorted_mset: "mset (find_sorted docs) = mset docs"
  by (simp add: find_sorted_def)

lemma find_sorted_descending:
  "sorted_wrt (\<lambda>a b. createdAt b \<le> createdAt a) (find_sorted docs)"
proof -
  have "sorted (map createdAt (sort_key createdAt docs))" by (rule sorted_sort_key)
  then have "sorted_wrt (\<lambda>a b. createdAt a \<le> createdAt b) (sort_key createdAt docs)"
    by (simp add: sorted_map)
  then show ?thesis
    unfolding find_sorted_def by (simp add: sorted_wrt_rev)
qed

lemma validate_typed:
  assumes "schema_path E SchemaString (name f) = Some (name f)"
    and "schema_path E SchemaNumber (age f) = Some (age f)"
    and "schema_path E SchemaNumber (income f) = Some (income f)"
    and "schema_path E SchemaNumber (loans f) = Some (loans f)"
    and "schema_path E SchemaNumber (score f) = Some (score f)"
    and "offer f \<noteq> []" and "message f \<noteq> []"
  shows "validate E f = Some f"
  using assms by (simp add: validate_def)

lemma save_accepts:
  "validate E f = Some f \<Longrightarrow> db_up E \<Longrightarrow>
   \<exists>d. save E docs f = Inr (d, docs @ [d]) \<and> score d = score f \<and> offer d = offer f
     \<and> name d = name f \<and> age d = age f \<and> income d = income f \<and> loans d = loans f
     \<and> message d = message f"
  by (simp add: save_def Let_def)

text \<open>
  A valid input with a score of the schema's type: the run is decided by the store's
  availability alone.
\<close>

lemma valid_run:
  assumes valid: "valid_ClientInput body"
    and nonzero: "income body \<noteq> JNum (Fin 0)"
    and fs: "features E body = Some fs"
    and sc: "score_client E fs = (s, l)"
    and num: "of_schema_type SchemaNumber s"
  shows "\<exists>off m f. deriveOffer E s (name body) = Some (off, m)
           \<and> f = \<lparr>name = name body, age = age body, income = income body,
                   loans = loans body, score = s, offer = off, message = m\<rparr>
           \<and> (if db_up E
               then \<exists>d. post_clients E docs body =
                      \<lparr>reply = Response 201 (ClientJson d), db_after = docs @ [d],
                       events = l @ [ClientSave f]\<rparr>
                    \<and> score d = s \<and> offer d = off
               else post_clients E docs body = server_error docs (l @ [ClientSave f]))"
proof -
  have present: "\<not> missing_fields body"
    using valid nonzero by (rule valid_present)
  obtain t where t: "to_string E (name body) = Some t"
    using valid_conversions(2) [OF valid] by blast
  obtain x where x: "to_number E s = Some x"
    using num by (cases s) auto
  from deriveOffer_total [OF x t] obtain off m where dv: "deriveOffer E s (name body) = Some (off, m)"
    by blast
  define f where "f = \<lparr>name = name body, age = age body, income = income body,
    loans = loans body, score = s, offer = off, message = m\<rparr>"
  note run = post_clients_present [OF present fs sc dv f_def, of docs]
  have v: "validate E f = Some f"
  proof (rule validate_typed)
    show "schema_path E SchemaNumber (score f) = Some (score f)"
      using num by (simp add: f_def schema_path_number)
    show "offer f \<noteq> []" using derived_nonempty(1) [OF dv] by (simp add: f_def)
    show "message f \<noteq> []" using derived_nonempty(2) [OF dv] by (simp add: f_def)
  qed (simp_all add: f_def valid_schema [OF valid])
  show ?thesis
  proof (cases "db_up E")
    case True
    from save_accepts [OF v True, of docs] obtain d where
      d: "save E docs f = Inr (d, docs @ [d])" "score d = score f" "offer d = offer f"
      by blast
    have "post_clients E docs body =
        \<lparr>reply = Response 201 (ClientJson d), db_after = docs @ [d],
         events = l @ [ClientSave f]\<rparr>"
      by (simp add: run d(1))
    moreover have "score d = s" "offer d = off" by (simp_all add: d f_def)
    ultimately show ?thesis using dv f_def True by auto
  next
    case False
    from save_down [OF False, of docs f] obtain e where "save E docs f = Inl e" by blast
    then have "post_clients E docs body = server_error docs (l @ [ClientSave f])"
      by (simp add: run)
    then show ?thesis using dv f_def False by auto
  qed
qed

text \<open>Every run of a request that passes the presence check has one of four shapes.\<close>

lemma post_clients_shape:
  assumes present: "\<not> missing_fields body"
  shows "(features E body = None \<and> post_clients E docs body = server_error docs [])
     \<or> (\<exists>fs s l. features E body = Some fs \<and> score_client E fs = (s, l)
           \<and> deriveOffer E s (name body) = None
           \<and> post_clients E docs body = server_error docs l)
     \<or> (\<exists>fs s l off m f. features E body = Some fs \<and> score_client E fs = (s, l)
           \<and> deriveOffer E s (name body) = Some (off, m)
           \<and> f = \<lparr>name = name body, age = age body, income = income body,
                   loans = loans body, score = s, offer = off, message = m\<rparr>
           \<and> ((\<exists>e. save E docs f = Inl e)
                 \<and> post_clients E docs body = server_error docs (l @ [ClientSave f])
               \<or> (\<exists>d g. save E docs f = Inr (d, docs @ [d]) \<and> validate E f = Some g
                     \<and> name d = name g \<and> age d = age g \<and> income d = income g
                     \<and> loans d = loans g \<and> score d = score g
                     \<and> post_clients E docs body =
                         \<lparr>reply = Response 201 (ClientJson d), db_after = docs @ [d],
                          events = l @ [ClientSave f]\<rparr>)))"
proof (cases "features E body")
  case None
  then show ?thesis by (simp add: post_clients_throws_features [OF present])
next
  case (Some fs)
  obtain s l where sc: "score_client E fs = (s, l)"
    by (cases "score_client E fs")
  show ?thesis
  proof (cases "deriveOffer E s (name body)")
    case None
    from post_clients_throws_offer [OF present Some sc None, of docs] Some sc None
    show ?thesis by blast
  next
    case (Some p)
    obtain off m where p: "p = (off, m)" by (cases p)
    with Some have dv: "deriveOffer E s (name body) = Some (off, m)" by simp
    define f where "f = \<lparr>name = name body, age = age body, income = income body,
      loans = loans body, score = s, offer = off, message = m\<rparr>"
    note run = post_clients_present [OF present \<open>features E body = Some fs\<close> sc dv f_def, of docs]
    show ?thesis
    proof (cases "save E docs f")
      case (Inl e)
      then have "post_clients E docs body = server_error docs (l @ [ClientSave f])"
        by (simp add: run)
      with Inl \<open>features E body = Some fs\<close> sc dv f_def show ?thesis by blast
    next
      case (Inr q)
      obtain d docs' where q: "q = (d, docs')" by (cases q)
      from Inr q have sv: "save E docs f = Inr (d, docs')" by simp
      from save_Inr [OF sv] obtain g where g: "docs' = docs @ [d]" "validate E f = Some g"
        "name d = name g" "age d = age g" "income d = income g" "loans d = loans g"
        "score d = score g"
        by blast
      have "post_clients E docs body =
          \<lparr>reply = Response 201 (ClientJson d), db_after = docs @ [d],
           events = l @ [ClientSave f]\<rparr>"
        by (simp add: run sv g(1))
      with sv g \<open>features E body = Some fs\<close> sc dv f_def show ?thesis by blast
    qed
  qed
qed

lemma primitive_conversions:
  assumes "primitive v"
  shows "\<exists>t. to_string B v = Some t" and "\<exists>x. to_number B v = Some x"
  using assms by (cases v; simp)+

lemma primitive_features:
  "primitive (age body) \<Longrightarrow> primitive (income body) \<Longrightarrow> primitive (loans body) \<Longrightarrow>
   \<exists>fs. features E body = Some fs"
  using primitive_conversions(1) [of "age body" E] primitive_conversions(1) [of "income body" E]
    primitive_conversions(1) [of "loans body" E]
  by (auto simp: features_def parse_int_def)

lemma primitive_derives:
  assumes "primitive s" and "primitive n"
  shows "\<exists>p. deriveOffer E s n = Some p"
proof -
  obtain x where x: "to_number E s = Some x"
    using primitive_conversions(2) [OF assms(1)] by blast
  obtain t where t: "to_string E n = Some t"
    using primitive_conversions(1) [OF assms(2)] by blast
  from deriveOffer_total [OF x t] show ?thesis by blast
qed

lemma offer_labels_nonempty:
  "offer_premium \<noteq> []" "offer_extension \<noteq> []" "offer_review \<noteq> []"
  by (simp_all add: offer_premium_def offer_extension_def offer_review_def)

lemma message_heads_nonempty:
  "message_premium_head \<noteq> []" "message_extension_head \<noteq> []" "message_review_head \<noteq> []"
  by (simp_all add: message_premium_head_def message_extension_head_def
      message_review_head_def)

lemmas run_defs =
  post_clients_def missing_fields_def features_def parse_int_def score_client_def
  deriveOffer_def template_def js_gt_def save_def validate_def schema_path_def
  get_clients_def find_sorted_def server_error_def
  world_def answers_def sara_def engine_parseInt_def parseInt_table_def
  engine_NumberToString_def NumberToString_table_def engine_StringToNumber_def
  cast_table_def valid_ClientInput_def is_integer_def Let_def
  offer_labels_nonempty message_heads_nonempty

lemma sara_valid: "valid_ClientInput sara"
  by (simp add: run_defs)

subsection \<open>The scoring call fails\<close>

text \<open>
  Claim C2 as stated does not hold for every valid input. A valid input whose income is
  0 is answered with the validation failure of line 270, whatever the scoring service
  does; and when the database does not answer, the request ends with the server error
  although the fallback score was assigned.
\<close>

theorem C2_valid_input_fails_counterexample:
  "valid_ClientInput (sara\<lparr>income := JNum (Fin 0)\<rparr>)
   \<and> axios_post (world (Rejected ''ECONNREFUSED'') True 1000) [Fin 30, Fin 0, Fin 1] =
       Rejected ''ECONNREFUSED''
   \<and> db_up (world (Rejected ''ECONNREFUSED'') True 1000)
   \<and> reply (post_clients (world (Rejected ''ECONNREFUSED'') True 1000) []
        (sara\<lparr>income := JNum (Fin 0)\<rparr>)) =
       Response 400
         (Message ''Please provide all required fields: name, age, income, and loans.'')
   \<and> valid_ClientInput sara
   \<and> features (world (Rejected ''ECONNREFUSED'') False 1000) sara = Some [Fin 30, Fin 50, Fin 1]
   \<and> axios_post (world (Rejected ''ECONNREFUSED'') False 1000) [Fin 30, Fin 50, Fin 1] =
       Rejected ''ECONNREFUSED''
   \<and> reply (post_clients (world (Rejected ''ECONNREFUSED'') False 1000) [] sara) =
       Response 500 (Message ''Server error while creating the client.'')"
  by (simp add: run_defs)

text \<open>
  Claim C2, amended. For a valid input whose income is not 0, when the call to the
  scoring service fails (axios rejects on a transport error, on a timeout and on a
  response outside 2xx) and the database answers, onboarding succeeds: the reply is the
  created document, its score is the constant 0.1 and its offer the review one. The
  failure is logged and nothing of it reaches the caller; the call was made exactly
  once. Here \<open>fs\<close> is the payload of line 274, which every valid input has.
\<close>

theorem C2_scoring_failure_fallback:
  assumes valid: "valid_ClientInput body"
    and nonzero: "income body \<noteq> JNum (Fin 0)"
    and payload: "features E body = Some fs"
    and fails: "axios_post E fs = Rejected msg"
    and up: "db_up E"
  shows "\<exists>d f. reply (post_clients E docs body) = Response 201 (ClientJson d)
           \<and> db_after (post_clients E docs body) = docs @ [d]
           \<and> score d = JNum (Fin 0.1)
           \<and> offer d = offer_review
           \<and> tier_of_offer (offer d) = Some Review
           \<and> events (post_clients E docs body) =
               [AxiosPost fs, ConsoleError ''Error calling AI model API:'', ClientSave f]"
proof -
  have sc: "score_client E fs =
      (JNum (Fin 0.1), [AxiosPost fs, ConsoleError ''Error calling AI model API:''])"
    using fails by (rule score_client_rejected)
  have num: "of_schema_type SchemaNumber (JNum (Fin 0.1))" by simp
  from valid_run [OF valid nonzero payload sc num, of docs] up
  obtain off m f d where dv: "deriveOffer E (JNum (Fin 0.1)) (name body) = Some (off, m)"
    and run: "post_clients E docs body =
        \<lparr>reply = Response 201 (ClientJson d), db_after = docs @ [d],
         events = [AxiosPost fs, ConsoleError ''Error calling AI model API:''] @ [ClientSave f]\<rparr>"
    and d: "score d = JNum (Fin 0.1)" "offer d = off"
    by auto
  from deriveOffer_Some [OF dv] obtain t where "to_string E (name body) = Some t" by blast
  from deriveOffer_Fin [OF this, of "0.1"] dv have "off = offer_review" by simp
  with d run show ?thesis
    by (auto simp: tier_of_offer_simps)
qed

theorem C2_scoring_failure_fallback_witness:
  "valid_ClientInput sara \<and> income sara \<noteq> JNum (Fin 0)
   \<and> features (world (Rejected ''ECONNREFUSED'') True 1000) sara = Some [Fin 30, Fin 50, Fin 1]
   \<and> axios_post (world (Rejected ''ECONNREFUSED'') True 1000) [Fin 30, Fin 50, Fin 1] =
       Rejected ''ECONNREFUSED''
   \<and> db_up (world (Rejected ''ECONNREFUSED'') True 1000)
   \<and> (\<exists>d. reply (post_clients (world (Rejected ''ECONNREFUSED'') True 1000) [] sara) =
             Response 201 (ClientJson d)
          \<and> score d = JNum (Fin 0.1) \<and> tier_of_offer (offer d) = Some Review)"
proof -
  have valid: "valid_ClientInput sara" by (rule sara_valid)
  have nonzero: "income sara \<noteq> JNum (Fin 0)" by (simp add: sara_def)
  have payload: "features (world (Rejected ''ECONNREFUSED'') True 1000) sara =
      Some [Fin 30, Fin 50, Fin 1]"
    by (simp add: run_defs)
  have fails: "axios_post (world (Rejected ''ECONNREFUSED'') True 1000) [Fin 30, Fin 50, Fin 1] =
       Rejected ''ECONNREFUSED''"
    by (simp add: world_def)
  have up: "db_up (world (Rejected ''ECONNREFUSED'') True 1000)"
    by (simp add: world_def)
  from C2_scoring_failure_fallback [OF valid nonzero payload fails up, of "[]"]
  show ?thesis using valid nonzero payload fails up by blast
qed

subsection \<open>The scoring service answers without a score\<close>

text \<open>
  Claim C3 says that a successful response with a malformed body gives the score 0.1
  and a successful onboarding. The run below is the valid input of the specification's
  example with a service that answers \<^verbatim>\<open>{}\<close>: line 279 reads \<^verbatim>\<open>undefined\<close>,
  nothing is thrown, so the \<^verbatim>\<open>catch\<close> of line 280 does not replace it; the review
  offer is derived from it, the schema's required number rejects the document, and the
  request ends with the server error of line 315 and no record.
\<close>

theorem C3_malformed_body_run:
  "valid_ClientInput sara
   \<and> features (world (Resolved (JObj [])) True 1000) sara = Some [Fin 30, Fin 50, Fin 1]
   \<and> score_client (world (Resolved (JObj [])) True 1000) [Fin 30, Fin 50, Fin 1] =
       (JUndefined, [AxiosPost [Fin 30, Fin 50, Fin 1]])
   \<and> reply (post_clients (world (Resolved (JObj [])) True 1000) [] sara) =
       Response 500 (Message ''Server error while creating the client.'')
   \<and> db_after (post_clients (world (Resolved (JObj [])) True 1000) [] sara) = []"
  by (simp add: run_defs)

subsection \<open>What an onboarding can end with\<close>

text \<open>
  Claim C4 as stated does not hold. The score of the service is stored as it comes: for
  the valid input of the example and a service that answers 7, the created record has
  the score 7, outside the unit interval. And a valid input whose income is 0 is answered
  with the validation failure.
\<close>

theorem C4_score_not_clamped_counterexample:
  "valid_ClientInput sara
   \<and> reply (post_clients (world (answers 7) True 1000) [] sara) =
       Response 201 (ClientJson
         \<lparr>name = JStr ''Sara'', age = JNum (Fin 30), income = JNum (Fin 50),
          loans = JNum (Fin 1), score = JNum (Fin 7), offer = offer_premium,
          message = message_premium_head @ ''Sara'' @ message_premium_tail,
          oid = 1000, createdAt = 1000, updatedAt = 1000\<rparr>)
   \<and> \<not> score_in_unit (JNum (Fin 7))
   \<and> valid_ClientInput (sara\<lparr>income := JNum (Fin 0)\<rparr>)
   \<and> reply (post_clients (world (answers 0.9) True 1000) [] (sara\<lparr>income := JNum (Fin 0)\<rparr>)) =
       Response 400
         (Message ''Please provide all required fields: name, age, income, and loans.'')"
  by (simp add: run_defs)

text \<open>
  Claim C4, amended. For a valid input whose income is not 0, line 274 does not throw,
  and when the scoring call is rejected, or answers \<^verbatim>\<open>null\<close>, or answers with a
  numeric score, the database alone decides the end: when it answers, the reply is the
  created record, appended to the collection; when it does not, the reply is the server
  error of line 315 and the collection is unchanged. So no failure of the scoring call
  ends an onboarding. The record's score is 0.1 after a failed call and otherwise the
  service's number as it came; nothing clamps it, and it lies in the unit interval
  exactly when the service's number does.
\<close>

theorem C4_onboard_outcomes:
  assumes valid: "valid_ClientInput body"
    and nonzero: "income body \<noteq> JNum (Fin 0)"
  shows "\<exists>fs. features E body = Some fs
     \<and> (\<forall>s. ((\<exists>msg. axios_post E fs = Rejected msg) \<and> s = JNum (Fin 0.1))
            \<or> ((\<exists>data. axios_post E fs = Resolved data \<and> repayment_score data = None)
                \<and> s = JNum (Fin 0.1))
            \<or> (\<exists>data. axios_post E fs = Resolved data \<and> repayment_score data = Some s
                  \<and> of_schema_type SchemaNumber s)
          \<longrightarrow> (if db_up E
               then \<exists>d. reply (post_clients E docs body) = Response 201 (ClientJson d)
                      \<and> db_after (post_clients E docs body) = docs @ [d]
                      \<and> score d = s
               else reply (post_clients E docs body) =
                      Response 500 (Message ''Server error while creating the client.'')
                    \<and> db_after (post_clients E docs body) = docs))"
proof -
  obtain fs where fs: "features E body = Some fs"
    using valid_conversions(1) [OF valid] by blast
  have "if db_up E
        then \<exists>d. reply (post_clients E docs body) = Response 201 (ClientJson d)
               \<and> db_after (post_clients E docs body) = docs @ [d]
               \<and> score d = s
        else reply (post_clients E docs body) =
               Response 500 (Message ''Server error while creating the client.'')
             \<and> db_after (post_clients E docs body) = docs"
    if service: "((\<exists>msg. axios_post E fs = Rejected msg) \<and> s = JNum (Fin 0.1))
            \<or> ((\<exists>data. axios_post E fs = Resolved data \<and> repayment_score data = None)
                \<and> s = JNum (Fin 0.1))
            \<or> (\<exists>data. axios_post E fs = Resolved data \<and> repayment_score data = Some s
                  \<and> of_schema_type SchemaNumber s)" for s
  proof -
    from service obtain l where sc: "score_client E fs = (s, l)"
      and num: "of_schema_type SchemaNumber s"
      by (auto simp: score_client_rejected score_client_thrown score_client_resolved)
    from valid_run [OF valid nonzero fs sc num, of docs]
    show ?thesis
      by (cases "db_up E") (auto simp: server_error_simps)
  qed
  with fs show ?thesis by blast
qed

theorem C4_onboard_outcomes_witness:
  "valid_ClientInput sara \<and> income sara \<noteq> JNum (Fin 0)
   \<and> axios_post (world (answers 0.9) True 1000) [Fin 30, Fin 50, Fin 1] = answers 0.9
   \<and> repayment_score (JObj [(''repayment_score'', JNum (Fin 0.9))]) = Some (JNum (Fin 0.9))
   \<and> of_schema_type SchemaNumber (JNum (Fin 0.9))
   \<and> db_up (world (answers 0.9) True 1000)
   \<and> (\<exists>d. reply (post_clients (world (answers 0.9) True 1000) [] sara) =
             Response 201 (ClientJson d)
          \<and> db_after (post_clients (world (answers 0.9) True 1000) [] sara) = [d]
          \<and> score d = JNum (Fin 0.9))
   \<and> (\<exists>msg. axios_post (world (Rejected ''ECONNREFUSED'') False 1000) [Fin 30, Fin 50, Fin 1] =
          Rejected msg)
   \<and> \<not> db_up (world (Rejected ''ECONNREFUSED'') False 1000)
   \<and> reply (post_clients (world (Rejected ''ECONNREFUSED'') False 1000) [] sara) =
       Response 500 (Message ''Server error while creating the client.'')"
proof -
  have valid: "valid_ClientInput sara" by (rule sara_valid)
  have nonzero: "income sara \<noteq> JNum (Fin 0)" by (simp add: sara_def)
  have fs: "features (world a up 1000) sara = Some [Fin 30, Fin 50, Fin 1]" for a up
    by (simp add: run_defs)
  have service: "axios_post (world (answers 0.9) True 1000) [Fin 30, Fin 50, Fin 1] =
        Resolved (JObj [(''repayment_score'', JNum (Fin 0.9))])
      \<and> repayment_score (JObj [(''repayment_score'', JNum (Fin 0.9))]) = Some (JNum (Fin 0.9))
      \<and> of_schema_type SchemaNumber (JNum (Fin 0.9))"
    by (simp add: world_def answers_def)
  have rejected: "axios_post (world (Rejected ''ECONNREFUSED'') False 1000)
      [Fin 30, Fin 50, Fin 1] = Rejected ''ECONNREFUSED''"
    by (simp add: world_def)
  have up: "db_up (world (answers 0.9) True 1000)"
    and down: "\<not> db_up (world (Rejected ''ECONNREFUSED'') False 1000)"
    by (simp_all add: world_def)
  from C4_onboard_outcomes [OF valid nonzero, of "world (answers 0.9) True 1000" "[]"]
    fs service up
  have a: "\<exists>d. reply (post_clients (world (answers 0.9) True 1000) [] sara) =
             Response 201 (ClientJson d)
          \<and> db_after (post_clients (world (answers 0.9) True 1000) [] sara) = [d]
          \<and> score d = JNum (Fin 0.9)"
    by force
  from C4_onboard_outcomes [OF valid nonzero, of "world (Rejected ''ECONNREFUSED'') False 1000" "[]"]
    fs rejected down
  have b: "reply (post_clients (world (Rejected ''ECONNREFUSED'') False 1000) [] sara) =
       Response 500 (Message ''Server error while creating the client.'')"
    by force
  from valid nonzero service up a rejected down b show ?thesis
    by (simp add: answers_def)
qed

subsection \<open>Fields that are present but not numbers\<close>

text \<open>
  Claim C5 as stated does not hold. The check of line 269 looks at presence only: with
  the age \<^verbatim>\<open>"abc"\<close> the request passes it, the scoring call is issued (with NaN as
  the first feature), and the request fails only when the store rejects the document,
  with the server error (status 500), not the validation failure (status 400).
\<close>

theorem C5_validation_error_counterexample:
  "\<not> missing_fields (sara\<lparr>age := JStr ''abc''\<rparr>)
   \<and> mongoose_cast (world (answers 0.9) True 1000) SchemaNumber (JStr ''abc'') = None
   \<and> reply (post_clients (world (answers 0.9) True 1000) [] (sara\<lparr>age := JStr ''abc''\<rparr>)) =
       Response 500 (Message ''Server error while creating the client.'')
   \<and> hd (events (post_clients (world (answers 0.9) True 1000) []
          (sara\<lparr>age := JStr ''abc''\<rparr>))) = AxiosPost [NaN, Fin 50, Fin 1]"
  by (simp add: run_defs)

text \<open>
  Claim C5, amended. When the four fields pass the presence check and one of age,
  income and loans cannot be stored as a number, the request ends with the server error
  of line 315 and no record is created. Unless line 274 throws (then nothing is called),
  the scoring call is issued first; and unless a comparison or template of lines 288-296
  throws, the document with the submitted fields is handed to the store, the store's
  validation rejects it, and that rejection is what is logged and answered.
\<close>

theorem C5_uncoercible_reaches_store:
  assumes present: "\<not> missing_fields body"
    and uncoercible: "schema_path E SchemaNumber (age body) = None
       \<or> schema_path E SchemaNumber (income body) = None
       \<or> schema_path E SchemaNumber (loans body) = None"
  shows "reply (post_clients E docs body) =
           Response 500 (Message ''Server error while creating the client.'')
         \<and> db_after (post_clients E docs body) = docs
         \<and> (\<forall>fs. features E body = Some fs \<longrightarrow>
               (\<exists>rest. events (post_clients E docs body) = AxiosPost fs # rest))
         \<and> (\<forall>fs s l off m.
               features E body = Some fs \<and> score_client E fs = (s, l)
               \<and> deriveOffer E s (name body) = Some (off, m) \<longrightarrow>
               (\<exists>f. name f = name body \<and> age f = age body \<and> income f = income body
                  \<and> loans f = loans body
                  \<and> save E docs f = Inl ValidationFailed
                  \<and> events (post_clients E docs body) =
                      l @ [ClientSave f, ConsoleError ''Error creating client:'']))
         \<and> (features E body = None \<longrightarrow>
               events (post_clients E docs body) = [ConsoleError ''Error creating client:''])"
proof -
  have rejected: "save E docs f = Inl ValidationFailed"
    if "age f = age body" "income f = income body" "loans f = loans body" for f
  proof -
    from uncoercible that have "validate E f = None"
      by (auto simp: validate_def split: option.splits)
    then show ?thesis by (simp add: save_def)
  qed
  have no_record: "reply (post_clients E docs body) =
           Response 500 (Message ''Server error while creating the client.'')
         \<and> db_after (post_clients E docs body) = docs"
    using post_clients_shape [OF present, of E docs] rejected
    by (auto simp: server_error_simps)
  have call: "\<exists>rest. events (post_clients E docs body) = AxiosPost fs # rest"
    if fs: "features E body = Some fs" for fs
  proof -
    obtain s l where sc: "score_client E fs = (s, l)" by (cases "score_client E fs")
    from score_client_events [of E fs] sc obtain rest where "l = AxiosPost fs # rest" by auto
    with post_clients_shape [OF present, of E docs] fs sc show ?thesis
      by (auto simp: server_error_simps)
  qed
  have asked: "\<exists>f. name f = name body \<and> age f = age body \<and> income f = income body
                  \<and> loans f = loans body
                  \<and> save E docs f = Inl ValidationFailed
                  \<and> events (post_clients E docs body) =
                      l @ [ClientSave f, ConsoleError ''Error creating client:'']"
    if "features E body = Some fs \<and> score_client E fs = (s, l)
               \<and> deriveOffer E s (name body) = Some (off, m)" for fs s l off m
  proof -
    define f where "f = \<lparr>name = name body, age = age body, income = income body,
      loans = loans body, score = s, offer = off, message = m\<rparr>"
    from that have fs: "features E body = Some fs" and sc: "score_client E fs = (s, l)"
      and dv: "deriveOffer E s (name body) = Some (off, m)" by auto
    note run = post_clients_present [OF present fs sc dv f_def, of docs]
    have sv: "save E docs f = Inl ValidationFailed"
      by (rule rejected) (simp_all add: f_def)
    then have "events (post_clients E docs body) =
        l @ [ClientSave f, ConsoleError ''Error creating client:'']"
      by (simp add: run server_error_simps)
    with sv show ?thesis by (auto simp: f_def intro!: exI [of _ f])
  qed
  have thrown: "events (post_clients E docs body) = [ConsoleError ''Error creating client:'']"
    if "features E body = None"
    using that by (simp add: post_clients_throws_features [OF present] server_error_simps)
  from no_record call asked thrown show ?thesis by blast
qed

theorem C5_uncoercible_reaches_store_witness:
  "\<not> missing_fields (sara\<lparr>age := JStr ''abc''\<rparr>)
   \<and> schema_path (world (answers 0.9) True 1000) SchemaNumber
        (age (sara\<lparr>age := JStr ''abc''\<rparr>)) = None
   \<and> features (world (answers 0.9) True 1000) (sara\<lparr>age := JStr ''abc''\<rparr>) =
       Some [NaN, Fin 50, Fin 1]
   \<and> score_client (world (answers 0.9) True 1000) [NaN, Fin 50, Fin 1] =
       (JNum (Fin 0.9), [AxiosPost [NaN, Fin 50, Fin 1]])
   \<and> deriveOffer (world (answers 0.9) True 1000) (JNum (Fin 0.9))
        (name (sara\<lparr>age := JStr ''abc''\<rparr>)) =
       Some (offer_premium, message_premium_head @ ''Sara'' @ message_premium_tail)
   \<and> reply (post_clients (world (answers 0.9) True 1000) [] (sara\<lparr>age := JStr ''abc''\<rparr>)) =
       Response 500 (Message ''Server error while creating the client.'')
   \<and> db_after (post_clients (world (answers 0.9) True 1000) []
        (sara\<lparr>age := JStr ''abc''\<rparr>)) = []
   \<and> (\<exists>f. age f = JStr ''abc''
        \<and> save (world (answers 0.9) True 1000) [] f = Inl ValidationFailed
        \<and> events (post_clients (world (answers 0.9) True 1000) []
            (sara\<lparr>age := JStr ''abc''\<rparr>)) =
          [AxiosPost [NaN, Fin 50, Fin 1], ClientSave f,
           ConsoleError ''Error creating client:''])"
proof -
  have present: "\<not> missing_fields (sara\<lparr>age := JStr ''abc''\<rparr>)"
    by (simp add: run_defs)
  have uncoercible: "schema_path (world (answers 0.9) True 1000) SchemaNumber
        (age (sara\<lparr>age := JStr ''abc''\<rparr>)) = None"
    by (simp add: run_defs)
  have fs: "features (world (answers 0.9) True 1000) (sara\<lparr>age := JStr ''abc''\<rparr>) =
       Some [NaN, Fin 50, Fin 1]"
    by (simp add: run_defs)
  have sc: "score_client (world (answers 0.9) True 1000) [NaN, Fin 50, Fin 1] =
       (JNum (Fin 0.9), [AxiosPost [NaN, Fin 50, Fin 1]])"
    by (simp add: run_defs)
  have dv: "deriveOffer (world (answers 0.9) True 1000) (JNum (Fin 0.9))
        (name (sara\<lparr>age := JStr ''abc''\<rparr>)) =
       Some (offer_premium, message_premium_head @ ''Sara'' @ message_premium_tail)"
    by (simp add: run_defs)
  from C5_uncoercible_reaches_store [OF present disjI1, OF uncoercible, of "[]"] fs sc dv
  have "reply (post_clients (world (answers 0.9) True 1000) [] (sara\<lparr>age := JStr ''abc''\<rparr>)) =
       Response 500 (Message ''Server error while creating the client.'')
   \<and> db_after (post_clients (world (answers 0.9) True 1000) []
        (sara\<lparr>age := JStr ''abc''\<rparr>)) = []
   \<and> (\<exists>f. age f = JStr ''abc''
        \<and> save (world (answers 0.9) True 1000) [] f = Inl ValidationFailed
        \<and> events (post_clients (world (answers 0.9) True 1000) []
            (sara\<lparr>age := JStr ''abc''\<rparr>)) =
          [AxiosPost [NaN, Fin 50, Fin 1], ClientSave f,
           ConsoleError ''Error creating client:''])"
    by force
  with present uncoercible fs sc dv show ?thesis by blast
qed

subsection \<open>Absent fields and zeros\<close>

text \<open>
  Claim C6. When one of the four fields is absent from the body, the request is
  answered with the validation failure (status 400) at once: nothing has been called or
  logged before, nothing is stored, and a listing afterwards is what it would have been
  without the request.
\<close>

theorem C6_missing_field_rejected:
  assumes "name body = JUndefined \<or> age body = JUndefined \<or> income body = JUndefined
           \<or> loans body = JUndefined"
  shows "reply (post_clients E docs body) =
           Response 400
             (Message ''Please provide all required fields: name, age, income, and loans.'')
         \<and> events (post_clients E docs body) = []
         \<and> db_after (post_clients E docs body) = docs
         \<and> get_clients E' (db_after (post_clients E docs body)) = get_clients E' docs"
proof -
  from assms have "missing_fields body"
    by (auto simp: missing_fields_def)
  then show ?thesis
    by (simp add: post_clients_missing)
qed

theorem C6_missing_field_rejected_witness:
  "loans (sara\<lparr>loans := JUndefined\<rparr>) = JUndefined
   \<and> reply (post_clients (world (answers 0.9) True 1000) [] (sara\<lparr>loans := JUndefined\<rparr>)) =
       Response 400
         (Message ''Please provide all required fields: name, age, income, and loans.'')
   \<and> events (post_clients (world (answers 0.9) True 1000) []
        (sara\<lparr>loans := JUndefined\<rparr>)) = []
   \<and> db_after (post_clients (world (answers 0.9) True 1000) []
        (sara\<lparr>loans := JUndefined\<rparr>)) = []"
proof -
  have absent: "loans (sara\<lparr>loans := JUndefined\<rparr>) = JUndefined" by simp
  then have "name (sara\<lparr>loans := JUndefined\<rparr>) = JUndefined
      \<or> age (sara\<lparr>loans := JUndefined\<rparr>) = JUndefined
      \<or> income (sara\<lparr>loans := JUndefined\<rparr>) = JUndefined
      \<or> loans (sara\<lparr>loans := JUndefined\<rparr>) = JUndefined"
    by simp
  from C6_missing_field_rejected [OF this, of "world (answers 0.9) True 1000" "[]"
      "world (answers 0.9) True 3000"]
  show ?thesis using absent by simp
qed

text \<open>
  Claim C9. An age or an income that is the number 0 is answered with the validation
  failure: no scoring call, no record. A loans field that is the number 0 is accepted
  when the other three fields are truthy: the presence check passes; the scoring call is
  issued as soon as line 274 does not throw, which it cannot for an age and income that
  are not objects; the document is handed to the store with loans 0 as soon as lines
  288-296 do not throw, which they cannot for a score and name that are not objects; and
  the request ends with the created record (loans 0) or the server error. Of the four
  fields, loans is the one compared with \<^verbatim>\<open>undefined\<close> only.
\<close>

theorem C9_zero_values:
  "(age body = JNum (Fin 0) \<or> income body = JNum (Fin 0) \<longrightarrow>
      reply (post_clients E docs body) =
        Response 400
          (Message ''Please provide all required fields: name, age, income, and loans.'')
      \<and> events (post_clients E docs body) = []
      \<and> db_after (post_clients E docs body) = docs)
   \<and> (truthy (name body) \<and> truthy (age body) \<and> truthy (income body)
        \<and> loans body = JNum (Fin 0) \<longrightarrow>
      \<not> missing_fields body
      \<and> (primitive (age body) \<and> primitive (income body) \<longrightarrow> features E body \<noteq> None)
      \<and> (\<forall>fs. features E body = Some fs \<longrightarrow>
            (\<exists>rest. events (post_clients E docs body) = AxiosPost fs # rest))
      \<and> (\<forall>fs s l. features E body = Some fs \<and> score_client E fs = (s, l) \<longrightarrow>
            (primitive s \<and> primitive (name body) \<longrightarrow> deriveOffer E s (name body) \<noteq> None)
            \<and> (deriveOffer E s (name body) \<noteq> None \<longrightarrow>
                 (\<exists>f. ClientSave f \<in> set (events (post_clients E docs body))
                    \<and> loans f = JNum (Fin 0))))
      \<and> ((reply (post_clients E docs body) =
             Response 500 (Message ''Server error while creating the client.'')
           \<and> db_after (post_clients E docs body) = docs)
          \<or> (\<exists>d. reply (post_clients E docs body) = Response 201 (ClientJson d)
                \<and> db_after (post_clients E docs body) = docs @ [d]
                \<and> loans d = JNum (Fin 0))))
   \<and> (truthy (name body) \<and> truthy (age body) \<and> truthy (income body) \<longrightarrow>
        missing_fields body = (loans body = JUndefined))"
proof (intro conjI impI allI)
  assume "age body = JNum (Fin 0) \<or> income body = JNum (Fin 0)"
  then have "missing_fields body" by (auto simp: missing_fields_def)
  then show "reply (post_clients E docs body) =
        Response 400
          (Message ''Please provide all required fields: name, age, income, and loans.'')"
    and "events (post_clients E docs body) = []"
    and "db_after (post_clients E docs body) = docs"
    by (simp_all add: post_clients_missing)
next
  assume "truthy (name body) \<and> truthy (age body) \<and> truthy (income body)"
  then show "missing_fields body = (loans body = JUndefined)"
    by (simp add: missing_fields_def)
next
  assume a: "truthy (name body) \<and> truthy (age body) \<and> truthy (income body)
        \<and> loans body = JNum (Fin 0)"
  then show present: "\<not> missing_fields body" by (simp add: missing_fields_def)
  note shape = post_clients_shape [OF present, of E docs]
  have kept: "loans d = JNum (Fin 0)"
    if "validate E f = Some g" "loans d = loans g" "loans f = loans body" for d g f
  proof -
    from validate_Some [OF that(1)] that(3) a
    have "schema_path E SchemaNumber (JNum (Fin 0)) = Some (loans g)" by simp
    then have "loans g = JNum (Fin 0)"
      by (rule schema_path_Some_typed) simp
    with that(2) show ?thesis by simp
  qed
  from shape show "(reply (post_clients E docs body) =
             Response 500 (Message ''Server error while creating the client.'')
           \<and> db_after (post_clients E docs body) = docs)
          \<or> (\<exists>d. reply (post_clients E docs body) = Response 201 (ClientJson d)
                \<and> db_after (post_clients E docs body) = docs @ [d]
                \<and> loans d = JNum (Fin 0))"
  proof (elim disjE exE conjE)
    fix fs s l off m f d g
    assume "f = \<lparr>name = name body, age = age body, income = income body,
                   loans = loans body, score = s, offer = off, message = m\<rparr>"
      and "validate E f = Some g" and "loans d = loans g"
      and run: "post_clients E docs body =
                         \<lparr>reply = Response 201 (ClientJson d), db_after = docs @ [d],
                          events = l @ [ClientSave f]\<rparr>"
    then have "loans d = JNum (Fin 0)" using kept [of f g d] by simp
    with run show ?thesis by simp
  qed (simp_all add: server_error_simps)
  {
    assume "primitive (age body) \<and> primitive (income body)"
    with a primitive_features [of body E] show "features E body \<noteq> None" by auto
  }
  {
    fix fs
    assume fs: "features E body = Some fs"
    obtain s l where sc: "score_client E fs = (s, l)" by (cases "score_client E fs")
    from score_client_events [of E fs] sc obtain rest where "l = AxiosPost fs # rest" by auto
    with shape fs sc show "\<exists>rest. events (post_clients E docs body) = AxiosPost fs # rest"
      by (auto simp: server_error_simps)
  }
  {
    fix fs s l
    assume "primitive s \<and> primitive (name body)"
    with primitive_derives [of s "name body" E] show "deriveOffer E s (name body) \<noteq> None"
      by auto
  }
  {
    fix fs s l
    assume run: "features E body = Some fs \<and> score_client E fs = (s, l)"
      and dv: "deriveOffer E s (name body) \<noteq> None"
    from shape run dv a
    show "\<exists>f. ClientSave f \<in> set (events (post_clients E docs body))
                    \<and> loans f = JNum (Fin 0)"
      by (auto simp: server_error_simps)
  }
qed

theorem C9_zero_values_witness:
  "income (sara\<lparr>income := JNum (Fin 0)\<rparr>) = JNum (Fin 0)
   \<and> reply (post_clients (world (answers 0.9) True 1000) [] (sara\<lparr>income := JNum (Fin 0)\<rparr>)) =
       Response 400
         (Message ''Please provide all required fields: name, age, income, and loans.'')
   \<and> truthy (name (sara\<lparr>loans := JNum (Fin 0)\<rparr>))
   \<and> truthy (age (sara\<lparr>loans := JNum (Fin 0)\<rparr>))
   \<and> truthy (income (sara\<lparr>loans := JNum (Fin 0)\<rparr>))
   \<and> loans (sara\<lparr>loans := JNum (Fin 0)\<rparr>) = JNum (Fin 0)
   \<and> features (world (answers 0.9) True 1000) (sara\<lparr>loans := JNum (Fin 0)\<rparr>) =
       Some [Fin 30, Fin 50, Fin 0]
   \<and> score_client (world (answers 0.9) True 1000) [Fin 30, Fin 50, Fin 0] =
       (JNum (Fin 0.9), [AxiosPost [Fin 30, Fin 50, Fin 0]])
   \<and> primitive (JNum (Fin 0.9)) \<and> primitive (name (sara\<lparr>loans := JNum (Fin 0)\<rparr>))
   \<and> (\<exists>rest. events (post_clients (world (answers 0.9) True 1000) []
               (sara\<lparr>loans := JNum (Fin 0)\<rparr>)) = AxiosPost [Fin 30, Fin 50, Fin 0] # rest)
   \<and> (\<exists>f. ClientSave f \<in> set (events (post_clients (world (answers 0.9) True 1000) []
               (sara\<lparr>loans := JNum (Fin 0)\<rparr>)))
          \<and> loans f = JNum (Fin 0))
   \<and> (\<exists>d. reply (post_clients (world (answers 0.9) True 1000) []
               (sara\<lparr>loans := JNum (Fin 0)\<rparr>)) = Response 201 (ClientJson d)
          \<and> loans d = JNum (Fin 0))
   \<and> \<not> missing_fields (sara\<lparr>loans := JNull\<rparr>)"
proof -
  have zero: "income (sara\<lparr>income := JNum (Fin 0)\<rparr>) = JNum (Fin 0)" by simp
  have pres: "truthy (name (sara\<lparr>loans := JNum (Fin 0)\<rparr>))
      \<and> truthy (age (sara\<lparr>loans := JNum (Fin 0)\<rparr>))
      \<and> truthy (income (sara\<lparr>loans := JNum (Fin 0)\<rparr>))
      \<and> loans (sara\<lparr>loans := JNum (Fin 0)\<rparr>) = JNum (Fin 0)"
    by (simp add: sara_def)
  have pres': "truthy (name (sara\<lparr>loans := JNull\<rparr>)) \<and> truthy (age (sara\<lparr>loans := JNull\<rparr>))
      \<and> truthy (income (sara\<lparr>loans := JNull\<rparr>))"
    by (simp add: sara_def)
  have fs: "features (world (answers 0.9) True 1000) (sara\<lparr>loans := JNum (Fin 0)\<rparr>) =
       Some [Fin 30, Fin 50, Fin 0]"
    by (simp add: run_defs)
  have sc: "score_client (world (answers 0.9) True 1000) [Fin 30, Fin 50, Fin 0] =
       (JNum (Fin 0.9), [AxiosPost [Fin 30, Fin 50, Fin 0]])"
    by (simp add: run_defs)
  have prim: "primitive (JNum (Fin 0.9)) \<and> primitive (name (sara\<lparr>loans := JNum (Fin 0)\<rparr>))"
    by (simp add: sara_def)
  have created: "reply (post_clients (world (answers 0.9) True 1000) []
      (sara\<lparr>loans := JNum (Fin 0)\<rparr>)) \<noteq>
        Response 500 (Message ''Server error while creating the client.'')"
    by (simp add: run_defs)
  have a: "reply (post_clients (world (answers 0.9) True 1000) []
        (sara\<lparr>income := JNum (Fin 0)\<rparr>)) =
       Response 400
         (Message ''Please provide all required fields: name, age, income, and loans.'')"
    using C9_zero_values [of "sara\<lparr>income := JNum (Fin 0)\<rparr>"
        "world (answers 0.9) True 1000" "[]"] zero
    by blast
  note loans0 = C9_zero_values [of "sara\<lparr>loans := JNum (Fin 0)\<rparr>"
        "world (answers 0.9) True 1000" "[]"]
  have b: "\<exists>d. reply (post_clients (world (answers 0.9) True 1000) []
               (sara\<lparr>loans := JNum (Fin 0)\<rparr>)) = Response 201 (ClientJson d)
          \<and> loans d = JNum (Fin 0)"
    using loans0 pres created by blast
  have b1: "\<exists>rest. events (post_clients (world (answers 0.9) True 1000) []
               (sara\<lparr>loans := JNum (Fin 0)\<rparr>)) = AxiosPost [Fin 30, Fin 50, Fin 0] # rest"
    using loans0 pres fs by blast
  have b2: "\<exists>f. ClientSave f \<in> set (events (post_clients (world (answers 0.9) True 1000) []
               (sara\<lparr>loans := JNum (Fin 0)\<rparr>)))
          \<and> loans f = JNum (Fin 0)"
    using loans0 pres fs sc prim by blast
  have c: "\<not> missing_fields (sara\<lparr>loans := JNull\<rparr>)"
    using C9_zero_values [of "sara\<lparr>loans := JNull\<rparr>"
        "world (answers 0.9) True 1000" "[]"] pres'
    by simp
  from zero a pres fs sc prim b b1 b2 c show ?thesis by blast
qed

subsection \<open>The listing\<close>

text \<open>
  Claim C8. The listing returns every stored document (the same documents with the same
  multiplicities), the most recently created first; it leaves the collection as it
  was; and when it does not answer with the list it answers with the server-error
  response of line 256, the failure of the store.
\<close>

theorem C8_listing:
  "db_after (get_clients E docs) = docs
   \<and> (if db_up E
       then reply (get_clients E docs) = Response 200 (ClientsJson (find_sorted docs))
       else reply (get_clients E docs) =
              Response 500 (Message ''Server error while fetching clients.''))
   \<and> mset (find_sorted docs) = mset docs
   \<and> sorted_wrt (\<lambda>a b. createdAt b \<le> createdAt a) (find_sorted docs)"
  using find_sorted_descending [of docs]
  by (simp add: get_clients_def find_sorted_mset)

theorem C8_listing_witness:
  "map createdAt (find_sorted
      (db_after (post_clients (world (answers 0.3) True 2000)
         (db_after (post_clients (world (answers 0.9) True 1000) [] sara))
         (sara\<lparr>name := JStr ''Omar''\<rparr>)))) = [2000, 1000]
   \<and> map name (find_sorted
      (db_after (post_clients (world (answers 0.3) True 2000)
         (db_after (post_clients (world (answers 0.9) True 1000) [] sara))
         (sara\<lparr>name := JStr ''Omar''\<rparr>)))) = [JStr ''Omar'', JStr ''Sara'']
   \<and> reply (get_clients (world (answers 0.9) True 3000)
      (db_after (post_clients (world (answers 0.3) True 2000)
         (db_after (post_clients (world (answers 0.9) True 1000) [] sara))
         (sara\<lparr>name := JStr ''Omar''\<rparr>)))) =
      Response 200 (ClientsJson (find_sorted
      (db_after (post_clients (world (answers 0.3) True 2000)
         (db_after (post_clients (world (answers 0.9) True 1000) [] sara))
         (sara\<lparr>name := JStr ''Omar''\<rparr>)))))"
  using C8_listing [of "world (answers 0.9) True 3000"
      "db_after (post_clients (world (answers 0.3) True 2000)
         (db_after (post_clients (world (answers 0.9) True 1000) [] sara))
         (sara\<lparr>name := JStr ''Omar''\<rparr>))"]
  by (simp add: run_defs)

subsection \<open>The stored input fields\<close>




end
